theory Spec2Isabelle
  imports Main
begin

section \<open>The link shortener of src/backend/server.ts\<close>

text \<open>
  The file holds three versions of the server; the one modelled here is the first
  (lines 1 to 70), the only one with the self-domain check and the lookup of an existing
  long URL. Its handler is a single closure passed to \<open>serve\<close>; it reads the request's
  method, the pathname of its URL and, for \<open>POST /shorten\<close>, its JSON body, and it talks
  to four things outside itself: the key-value store \<open>kv\<close>, \<open>crypto.randomUUID()\<close>,
  \<open>Response.redirect\<close> and \<open>Deno.readTextFile\<close>. In the model the store is passed in and
  returned, the UUID that the one call of \<open>crypto.randomUUID()\<close> would give is an argument,
  the strings that the platform parses as a URL are a set, and the files are a map from
  paths to contents.
\<close>

subsection \<open>Data\<close>

text \<open>
  A parsed JSON value, as \<open>req.json()\<close> gives it. The handler never looks at the value of
  a number, so integers stand for JSON numbers. The properties of an object are an
  association list, looked up with \<open>map_of\<close>.
\<close>

datatype json =
    JNull
  | JBool bool
  | JNum int
  | JStr string
  | JArr "json list"
  | JObj "(string \<times> json) list"

text \<open>
  What the handler reads of a request: \<open>req.method\<close> (the field \<open>http_method\<close>),
  \<open>new URL(req.url).pathname\<close> and the result of \<open>req.json()\<close>, which is \<open>None\<close> when
  the body is not JSON text and \<open>req.json()\<close> throws.
\<close>

record request =
  http_method :: string
  pathname :: string
  json_body :: "json option"

text \<open>The object written at line 37: \<open>{ shortId, url: longUrl }\<close>.\<close>

record entry =
  shortId :: string
  url :: string

text \<open>What the handler can throw.\<close>

datatype error =
    TypeError
  | SyntaxError
  | NotFound

text \<open>
  The store: a key is an array of parts (here always \<open>["urls", x]\<close> with \<open>x\<close> a string), a
  value is an entry. \<open>kv.get\<close> gives an object whose \<open>value\<close> is the stored value or
  \<open>null\<close>; \<open>kv.set\<close> overwrites.

  Deno KV limits the size of a key. It serialises a key part by part, a string part as
  one type byte, the bytes of the string in UTF-8 with one more byte after each zero
  byte, and one closing zero byte; \<open>kv.get\<close> and \<open>kv.set\<close> throw a TypeError when the
  serialised key is longer than 2048 bytes. The part \<open>urls\<close> takes 6 bytes, so the second
  part fits when it has at most 2040 bytes (and no zero byte). The value written at
  line 37 holds the long URL once more and six characters, far below the store's limit
  on values for every key that fits. That the store is out of reach or fails to commit
  is not part of the model.
\<close>

type_synonym kv = "string list \<rightharpoonup> entry"

definition key_part_size :: "string \<Rightarrow> nat" where
  "key_part_size p = 2 + length p + length (filter (\<lambda>c. c = CHR 0x00) p)"

definition key_size :: "string list \<Rightarrow> nat" where
  "key_size k = sum_list (map key_part_size k)"

definition kv_get :: "kv \<Rightarrow> string list \<Rightarrow> error + entry option" where
  "kv_get st k = (if 2048 < key_size k then Inl TypeError else Inr (st k))"

definition kv_set :: "kv \<Rightarrow> string list \<Rightarrow> entry \<Rightarrow> error + kv" where
  "kv_set st k v = (if 2048 < key_size k then Inl TypeError else Inr (st(k \<mapsto> v)))"

text \<open>
  A response body is absent (\<open>null\<close>), a text, or \<open>JSON.stringify\<close> of a value.
  \<open>Response b s hs\<close> is \<open>new Response(b, { status: s, headers: hs })\<close>, the status being
  200 where the source gives none; \<open>Redirect u s\<close> is what the call
  \<open>Response.redirect(u, s)\<close> returns when it returns, kept with the two arguments as the
  source passes them.
\<close>

datatype body =
    NoBody
  | Text string
  | JsonText json

datatype response =
    Response body nat "(string \<times> string) list"
  | Redirect string nat

definition corsHeaders :: "(string \<times> string) list" where
  "corsHeaders =
     [(''Access-Control-Allow-Origin'', ''*''),
      (''Access-Control-Allow-Methods'', ''*''),
      (''Access-Control-Allow-Headers'', ''*'')]"

subsection \<open>String operations\<close>

text \<open>
  \<open>s.startsWith(t)\<close> and \<open>s.includes(t)\<close> of JavaScript (\<open>includes_str\<close> here, the plain
  name being reserved); \<open>s.slice(0, 6)\<close> is \<open>take 6 s\<close> and \<open>s.slice(1)\<close> is \<open>drop 1 s\<close>.
  A string is the list of the bytes of its UTF-8 encoding, which is what the store counts
  in a key. JavaScript slices by UTF-16 code units, which makes no difference here: a
  UUID and a pathname are ASCII, and whether \<open>.deno.dev\<close> occurs in a text does not depend
  on how the characters around it are encoded. A JavaScript string with an unpaired
  surrogate has no UTF-8 encoding and is outside the model.
\<close>

fun startsWith :: "string \<Rightarrow> string \<Rightarrow> bool" where
  "startsWith s [] = True"
| "startsWith [] (c # t) = False"
| "startsWith (a # s) (c # t) = (a = c \<and> startsWith s t)"

fun includes_str :: "string \<Rightarrow> string \<Rightarrow> bool" where
  "includes_str [] t = startsWith [] t"
| "includes_str (a # s) t = (startsWith (a # s) t \<or> includes_str s t)"

subsection \<open>The handler\<close>

text \<open>
  Line 19, \<open>const { url: longUrl } = await req.json()\<close>: destructuring \<open>null\<close> throws, an
  object gives its property \<open>url\<close> or \<open>undefined\<close> (\<open>None\<close>), and any other value has no
  such property.
\<close>

fun destructure_url :: "json \<Rightarrow> error + json option" where
  "destructure_url JNull = Inl TypeError"
| "destructure_url (JObj ps) = Inr (map_of ps ''url'')"
| "destructure_url v = Inr None"

definition domain_error :: response where
  "domain_error =
     Response (Text (''Error: Long URL cannot contain '' @ [CHR 0x27] @ ''.deno.dev'' @ [CHR 0x27]))
       400 corsHeaders"

definition shortId_response :: "string \<Rightarrow> response" where
  "shortId_response sid =
     Response (JsonText (JObj [(''shortId'', JStr sid)])) 200
       ((''Content-Type'', ''application/json'') # corsHeaders)"

text \<open>
  Lines 21 to 41, for a \<open>longUrl\<close> that is a string: the self-domain check, the lookup of
  the long URL, and the allocation with the one \<open>kv.set\<close> of the branch. Neither store
  call is guarded, so what it throws leaves the handler.
\<close>

definition shorten_string :: "kv \<Rightarrow> string \<Rightarrow> string \<Rightarrow> (error + response) \<times> kv" where
  "shorten_string st uuid longUrl =
     (if includes_str longUrl ''.deno.dev'' then (Inr domain_error, st)
      else
        (case kv_get st [''urls'', longUrl] of
           Inl e \<Rightarrow> (Inl e, st)
         | Inr (Some existingEntry) \<Rightarrow> (Inr (shortId_response (shortId existingEntry)), st)
         | Inr None \<Rightarrow>
            (let sid = take 6 uuid
             in case kv_set st [''urls'', longUrl] \<lparr>shortId = sid, url = longUrl\<rparr> of
                  Inl e \<Rightarrow> (Inl e, st)
                | Inr st' \<Rightarrow> (Inr (shortId_response sid), st'))))"

text \<open>
  Lines 19 to 41 for any body. \<open>longUrl.includes\<close> throws on \<open>undefined\<close> and \<open>null\<close>, and
  is not a function on a number, a boolean or an object. On an array it is the array's
  own \<open>includes\<close>, which looks for the string as an element; an array without it reaches
  \<open>kv.get\<close>, which throws because an array is no key part.
\<close>

fun shorten :: "kv \<Rightarrow> string \<Rightarrow> json option \<Rightarrow> (error + response) \<times> kv" where
  "shorten st uuid None = (Inl SyntaxError, st)"
| "shorten st uuid (Some v) =
     (case destructure_url v of
        Inl e \<Rightarrow> (Inl e, st)
      | Inr None \<Rightarrow> (Inl TypeError, st)
      | Inr (Some (JStr longUrl)) \<Rightarrow> shorten_string st uuid longUrl
      | Inr (Some (JArr xs)) \<Rightarrow>
          (if JStr ''.deno.dev'' \<in> set xs then (Inr domain_error, st) else (Inl TypeError, st))
      | Inr (Some w) \<Rightarrow> (Inl TypeError, st))"

text \<open>
  Lines 45 to 52. \<open>Response.redirect(u, 302)\<close> parses \<open>u\<close> as a URL, with no base URL to
  resolve a relative one against, and throws a TypeError when that fails; the handler
  stores any string as \<open>url\<close>, so it can fail. The parser belongs to the platform:
  \<open>parsable\<close> is the set of the strings it accepts.
\<close>

definition resolve :: "string set \<Rightarrow> kv \<Rightarrow> string \<Rightarrow> (error + response) \<times> kv" where
  "resolve parsable st path =
     (let sid = drop 1 path
      in case kv_get st [''urls'', sid] of
           Inl e \<Rightarrow> (Inl e, st)
         | Inr (Some v) \<Rightarrow>
             (if url v \<in> parsable then (Inr (Redirect (url v) 302), st)
              else (Inl TypeError, st))
         | Inr None \<Rightarrow> (Inr (Response (Text ''URL not found'') 404 corsHeaders), st))"

text \<open>Lines 56 to 66: \<open>Deno.readTextFile\<close> throws when the file is missing.\<close>

definition static_file ::
  "(string \<rightharpoonup> string) \<Rightarrow> string \<Rightarrow> string \<Rightarrow> error + response" where
  "static_file fs path ctype =
     (case fs path of
        None \<Rightarrow> Inl NotFound
      | Some text \<Rightarrow> Inr (Response (Text text) 200 ((''Content-Type'', ctype) # corsHeaders)))"

text \<open>The closure of lines 11 to 70, its branches in the order of the source.\<close>

definition handler ::
  "string set \<Rightarrow> (string \<rightharpoonup> string) \<Rightarrow> kv \<Rightarrow> string \<Rightarrow> request
     \<Rightarrow> (error + response) \<times> kv" where
  "handler parsable fs st uuid req =
     (if http_method req = ''OPTIONS'' then (Inr (Response NoBody 200 corsHeaders), st)
      else if http_method req = ''POST'' \<and> pathname req = ''/shorten''
        then shorten st uuid (json_body req)
      else if http_method req = ''GET'' \<and> startsWith (pathname req) ''/''
        then resolve parsable st (pathname req)
      else if http_method req = ''GET'' \<and> pathname req = ''/''
        then (static_file fs ''./index.html'' ''text/html'', st)
      else if http_method req = ''GET'' \<and> pathname req = ''/styles.css''
        then (static_file fs ''./styles.css'' ''text/css'', st)
      else if http_method req = ''GET'' \<and> pathname req = ''/script.js''
        then (static_file fs ''./script.js'' ''application/javascript'', st)
      else (Inr (Response (Text ''Not Found'') 404 corsHeaders), st))"

subsection \<open>The server around the handler\<close>

text \<open>
  \<open>serve\<close> of the standard library's http/server.ts builds a \<open>Server\<close> with no \<open>onError\<close>
  option, so a handler that throws is answered by the default of the constructor: the
  text \<open>Internal Server Error\<close> with status 500.
\<close>

definition onError :: "error \<Rightarrow> response" where
  "onError e = Response (Text ''Internal Server Error'') 500 []"

definition respond ::
  "string set \<Rightarrow> (string \<rightharpoonup> string) \<Rightarrow> kv \<Rightarrow> string \<Rightarrow> request \<Rightarrow> response \<times> kv" where
  "respond parsable fs st uuid req =
     (case handler parsable fs st uuid req of
        (Inl e, st') \<Rightarrow> (onError e, st')
      | (Inr r, st') \<Rightarrow> (r, st'))"

subsection \<open>The two requests of the HTTP interface\<close>

text \<open>
  \<open>POST /shorten\<close> with the body \<open>{"url": u}\<close>, as script.js sends it, and \<open>GET /x\<close>, the
  link shown to the user being the origin followed by \<open>/\<close> and the short ID.
\<close>

definition shorten_request :: "string \<Rightarrow> request" where
  "shorten_request u =
     \<lparr>http_method = ''POST'', pathname = ''/shorten'', json_body = Some (JObj [(''url'', JStr u)])\<rparr>"

definition resolve_request :: "string \<Rightarrow> request" where
  "resolve_request x = \<lparr>http_method = ''GET'', pathname = CHR ''/'' # x, json_body = None\<rparr>"

section \<open>Properties\<close>

subsection \<open>Auxiliary facts\<close>

text \<open>The two string tests are the prefix and the substring relation.\<close>

lemma startsWith_iff: "startsWith s t \<longleftrightarrow> (\<exists>q. s = t @ q)"
  by (induction s t rule: startsWith.induct) auto

lemma includes_str_iff: "includes_str s t \<longleftrightarrow> (\<exists>p q. s = p @ t @ q)"
proof (induction s)
  case Nil
  then show ?case by (cases t) auto
next
  case (Cons a s)
  show ?case
  proof
    assume "includes_str (a # s) t"
    then consider "startsWith (a # s) t" | "includes_str s t" by auto
    then show "\<exists>p q. a # s = p @ t @ q"
    proof cases
      case 1
      then obtain q where "a # s = t @ q" unfolding startsWith_iff by blast
      then have "a # s = [] @ t @ q" by simp
      then show ?thesis by blast
    next
      case 2
      then obtain p q where "s = p @ t @ q" using Cons.IH by blast
      then have "a # s = (a # p) @ t @ q" by simp
      then show ?thesis by blast
    qed
  next
    assume "\<exists>p q. a # s = p @ t @ q"
    then obtain p q where pq: "a # s = p @ t @ q" by blast
    show "includes_str (a # s) t"
    proof (cases p)
      case Nil
      with pq have "startsWith (a # s) t" unfolding startsWith_iff by auto
      then show ?thesis by simp
    next
      case (Cons b p')
      with pq have "s = p' @ t @ q" by simp
      then have "includes_str s t" using Cons.IH by blast
      then show ?thesis by simp
    qed
  qed
qed

lemma includes_str_set:
  assumes "includes_str s t"
  shows "set t \<subseteq> set s"
proof -
  from assms obtain p q where "s = p @ t @ q" unfolding includes_str_iff by blast
  then show ?thesis by auto
qed

text \<open>The size of the keys of the handler, and the store calls on a key that fits.\<close>

lemma key_size_urls:
  "key_size [''urls'', x] = 8 + length x + length (filter (\<lambda>c. c = CHR 0x00) x)"
  by (simp add: key_size_def key_part_size_def)

lemma kv_get_fits:
  assumes "key_size k \<le> 2048"
  shows "kv_get st k = Inr (st k)"
  using assms by (simp add: kv_get_def)

lemma kv_set_fits:
  assumes "key_size k \<le> 2048"
  shows "kv_set st k v = Inr (st(k \<mapsto> v))"
  using assms by (simp add: kv_set_def)

lemma kv_get_Inr:
  assumes "kv_get st k = Inr r"
  shows "key_size k \<le> 2048 \<and> r = st k"
  using assms by (simp add: kv_get_def split: if_splits)

lemma kv_get_Inl:
  assumes "kv_get st k = Inl e"
  shows "e = TypeError"
  using assms by (simp add: kv_get_def split: if_splits)

lemma kv_set_Inl:
  assumes "kv_set st k v = Inl e"
  shows "e = TypeError"
  using assms by (simp add: kv_set_def split: if_splits)

lemma handler_shorten_request:
  "handler parsable fs st g (shorten_request u) = shorten_string st g u"
  by (simp add: handler_def shorten_request_def)

lemma handler_resolve_request:
  "handler parsable fs st g (resolve_request x) = resolve parsable st (CHR ''/'' # x)"
  by (simp add: handler_def resolve_request_def)

lemma shorten_string_new:
  assumes "\<not> includes_str u ''.deno.dev''" and "key_size [''urls'', u] \<le> 2048"
      and "st [''urls'', u] = None"
  shows "shorten_string st g u =
           (Inr (shortId_response (take 6 g)),
            st([''urls'', u] \<mapsto> \<lparr>shortId = take 6 g, url = u\<rparr>))"
  using assms by (simp add: shorten_string_def kv_get_fits kv_set_fits Let_def)

lemma shorten_string_existing:
  assumes "\<not> includes_str u ''.deno.dev''" and "key_size [''urls'', u] \<le> 2048"
      and "st [''urls'', u] = Some e"
  shows "shorten_string st g u = (Inr (shortId_response (shortId e)), st)"
  using assms by (simp add: shorten_string_def kv_get_fits)

lemma shorten_string_too_long:
  assumes "\<not> includes_str u ''.deno.dev''" and "2048 < key_size [''urls'', u]"
  shows "shorten_string st g u = (Inl TypeError, st)"
  using assms by (simp add: shorten_string_def kv_get_def)

lemma shortId_response_inject [simp]:
  "shortId_response s = shortId_response t \<longleftrightarrow> s = t"
  by (simp add: shortId_response_def)

text \<open>
  A \<open>GET\<close> whose pathname starts with \<open>/\<close> is answered by the lookup; no request changes
  the store on the way to an error; the handler's answer does not depend on the files,
  and is never the answer of a file branch.
\<close>

lemma handler_GET_slash:
  assumes "startsWith p ''/''"
  shows "handler parsable fs st g \<lparr>http_method = ''GET'', pathname = p, json_body = b\<rparr>
           = resolve parsable st p"
  using assms by (simp add: handler_def)

lemma snd_resolve: "snd (resolve parsable st p) = st"
  by (simp add: resolve_def Let_def split: sum.split option.split)

lemma handler_no_files: "handler parsable fs st g req = handler parsable fs' st g req"
proof (cases "http_method req = ''GET''")
  case True
  then show ?thesis
    by (auto simp add: handler_def)
next
  case False
  then show ?thesis by (simp add: handler_def)
qed

lemma shorten_string_not_static: "fst (shorten_string st g u) \<noteq> static_file fs path ctype"
  by (auto simp add: static_file_def shorten_string_def domain_error_def shortId_response_def
      Let_def split: option.split sum.split dest: kv_get_Inl kv_set_Inl)

lemma shorten_not_static: "fst (shorten st g b) \<noteq> static_file fs path ctype"
proof (cases b)
  case None
  then show ?thesis by (simp add: static_file_def split: option.split)
next
  case (Some v)
  have err: "Inl TypeError \<noteq> static_file fs path ctype"
    by (simp add: static_file_def split: option.split)
  have dom: "Inr domain_error \<noteq> static_file fs path ctype"
    by (simp add: static_file_def domain_error_def split: option.split)
  show ?thesis
    using Some err dom shorten_string_not_static [of st g _ fs path ctype]
    by (cases v) (auto split: option.split json.split)
qed

lemma resolve_not_static: "fst (resolve parsable st p) \<noteq> static_file fs path ctype"
  by (auto simp add: resolve_def static_file_def Let_def split: option.split sum.split
      dest: kv_get_Inl)

lemma handler_not_static: "fst (handler parsable fs st g req) \<noteq> static_file fs' path ctype"
proof -
  have "Inr (Response NoBody 200 corsHeaders) \<noteq> static_file fs' path ctype"
    by (simp add: static_file_def split: option.split)
  moreover have "Inr (Response (Text ''Not Found'') 404 corsHeaders) \<noteq> static_file fs' path ctype"
    by (simp add: static_file_def split: option.split)
  ultimately show ?thesis
    using shorten_not_static [of st g "json_body req" fs' path ctype]
      resolve_not_static [of parsable st "pathname req" fs' path ctype]
    by (auto simp add: handler_def)
qed

subsection \<open>Shortening, then resolving the short ID\<close>

text \<open>
  C1: on the empty store, \<open>POST /shorten\<close> with \<open>{"url": "https://example.com"}\<close> and a
  UUID that starts with \<open>a1b2c3\<close> answers with the short ID \<open>a1b2c3\<close> and writes one
  record, under the key of the long URL; \<open>GET /a1b2c3\<close> on the store so left finds
  nothing under the key of the short ID and answers 404 with \<open>URL not found\<close>, where the
  round trip asks for a redirect to the long URL.
\<close>

theorem roundtrip_fails:
  "handler {''https://example.com''} Map.empty Map.empty
       ''a1b2c3d4-e5f6-4789-8abc-def012345678'' (shorten_request ''https://example.com'')
     = (Inr (shortId_response ''a1b2c3''),
        [[''urls'', ''https://example.com''] \<mapsto>
           \<lparr>shortId = ''a1b2c3'', url = ''https://example.com''\<rparr>])
   \<and> handler {''https://example.com''} Map.empty
       [[''urls'', ''https://example.com''] \<mapsto>
          \<lparr>shortId = ''a1b2c3'', url = ''https://example.com''\<rparr>]
       ''0f8fad5b-d9cb-469f-a165-70867728950e'' (resolve_request ''a1b2c3'')
     = (Inr (Response (Text ''URL not found'') 404 corsHeaders),
        [[''urls'', ''https://example.com''] \<mapsto>
          \<lparr>shortId = ''a1b2c3'', url = ''https://example.com''\<rparr>])"
  by (simp add: handler_shorten_request handler_resolve_request shorten_string_def resolve_def
      kv_get_def kv_set_def key_size_urls Let_def)

subsection \<open>The records after a shorten request\<close>

text \<open>
  C2: after that same \<open>POST /shorten\<close> on the empty store, the store holds the forward
  record of \<open>https://example.com\<close> with the short ID \<open>a1b2c3\<close> and holds nothing under
  the key of \<open>a1b2c3\<close>: the forward record has no reverse record.
\<close>

theorem no_reverse_record_written:
  "(snd (handler {''https://example.com''} Map.empty Map.empty
           ''a1b2c3d4-e5f6-4789-8abc-def012345678'' (shorten_request ''https://example.com'')))
       [''urls'', ''https://example.com'']
     = Some \<lparr>shortId = ''a1b2c3'', url = ''https://example.com''\<rparr>
   \<and> (snd (handler {''https://example.com''} Map.empty Map.empty
           ''a1b2c3d4-e5f6-4789-8abc-def012345678'' (shorten_request ''https://example.com'')))
       [''urls'', ''a1b2c3'']
     = None"
  by (simp add: handler_shorten_request shorten_string_def kv_get_def kv_set_def key_size_urls
      Let_def)

subsection \<open>Shortening the same long URL twice\<close>

text \<open>
  C3, the claim as stated fails on a long URL whose key the store refuses. The long URL
  below is \<open>https://example.com/\<close> followed by 2021 times the letter \<open>a\<close>, 2041 bytes in
  all; it does not contain \<open>.deno.dev\<close>, and its key takes 2049 bytes. The lookup at line
  27 throws, the server answers 500, and the store is still empty: both requests are
  answered so, no short ID is returned and no record is written.
\<close>

theorem long_url_not_shortened:
  "\<not> includes_str (''https://example.com/'' @ replicate 2021 (CHR ''a'')) ''.deno.dev''
   \<and> key_size [''urls'', ''https://example.com/'' @ replicate 2021 (CHR ''a'')] = 2049
   \<and> respond {''https://example.com/'' @ replicate 2021 (CHR ''a'')} Map.empty Map.empty
         ''a1b2c3d4-e5f6-4789-8abc-def012345678''
         (shorten_request (''https://example.com/'' @ replicate 2021 (CHR ''a'')))
       = (Response (Text ''Internal Server Error'') 500 [], Map.empty)
   \<and> respond {''https://example.com/'' @ replicate 2021 (CHR ''a'')} Map.empty Map.empty
         ''0f8fad5b-d9cb-469f-a165-70867728950e''
         (shorten_request (''https://example.com/'' @ replicate 2021 (CHR ''a'')))
       = (Response (Text ''Internal Server Error'') 500 [], Map.empty)"
proof -
  let ?u = "''https://example.com/'' @ replicate 2021 (CHR ''a'')"
  have "CHR ''v'' \<notin> set ?u" by simp
  then have no: "\<not> includes_str ?u ''.deno.dev''"
    using includes_str_set [of ?u "''.deno.dev''"] by auto
  have size: "key_size [''urls'', ?u] = 2049"
    by (simp add: key_size_urls)
  have "shorten_string Map.empty g ?u = (Inl TypeError, Map.empty)" for g
    using no size by (simp add: shorten_string_too_long)
  then have "respond {?u} Map.empty Map.empty g (shorten_request ?u)
      = (Response (Text ''Internal Server Error'') 500 [], Map.empty)" for g
    by (simp add: respond_def handler_shorten_request onError_def)
  with no size show ?thesis by simp
qed

text \<open>
  C3 as amended: for every long URL \<open>u\<close> that passes the self-domain check and whose key
  fits the store (at most 2048 bytes, that is a \<open>u\<close> of at most 2040 bytes), two
  \<open>POST /shorten\<close> requests for \<open>u\<close> in a row answer with the same short ID, the second
  leaves the store as the first left it, the store then holds the record of \<open>u\<close> under the
  key of \<open>u\<close> with that short ID (a key having one value, there is exactly one), and the
  first request touches no other key.
\<close>

theorem shorten_idempotent:
  assumes "\<not> includes_str u ''.deno.dev''" and "key_size [''urls'', u] \<le> 2048"
  shows "let (r1, st1) = handler parsable fs st g1 (shorten_request u);
             (r2, st2) = handler parsable fs st1 g2 (shorten_request u)
         in \<exists>s. r1 = Inr (shortId_response s) \<and> r2 = Inr (shortId_response s) \<and> st2 = st1
               \<and> (\<exists>e. st1 [''urls'', u] = Some e \<and> shortId e = s)
               \<and> (\<forall>k. k \<noteq> [''urls'', u] \<longrightarrow> st1 k = st k)"
proof (cases "st [''urls'', u]")
  case None
  let ?st1 = "st([''urls'', u] \<mapsto> \<lparr>shortId = take 6 g1, url = u\<rparr>)"
  have first: "handler parsable fs st g1 (shorten_request u)
      = (Inr (shortId_response (take 6 g1)), ?st1)"
    using assms None by (simp add: handler_shorten_request shorten_string_new)
  have "?st1 [''urls'', u] = Some \<lparr>shortId = take 6 g1, url = u\<rparr>" by simp
  then have second: "handler parsable fs ?st1 g2 (shorten_request u)
      = (Inr (shortId_response (take 6 g1)), ?st1)"
    using assms by (simp add: handler_shorten_request shorten_string_existing)
  show ?thesis by (simp add: first second)
next
  case (Some e)
  have both: "handler parsable fs st g (shorten_request u)
      = (Inr (shortId_response (shortId e)), st)" for g
    using assms Some by (simp add: handler_shorten_request shorten_string_existing)
  show ?thesis using Some by (simp add: both)
qed

theorem shorten_idempotent_witness:
  "\<not> includes_str ''https://example.com'' ''.deno.dev''
   \<and> key_size [''urls'', ''https://example.com''] \<le> 2048
   \<and> (let (r1, st1) = handler {''https://example.com''} Map.empty Map.empty
                         ''a1b2c3d4-e5f6-4789-8abc-def012345678''
                         (shorten_request ''https://example.com'');
           (r2, st2) = handler {''https://example.com''} Map.empty st1
                         ''0f8fad5b-d9cb-469f-a165-70867728950e''
                         (shorten_request ''https://example.com'')
       in \<exists>s. r1 = Inr (shortId_response s) \<and> r2 = Inr (shortId_response s) \<and> st2 = st1
             \<and> (\<exists>e. st1 [''urls'', ''https://example.com''] = Some e \<and> shortId e = s)
             \<and> (\<forall>k. k \<noteq> [''urls'', ''https://example.com''] \<longrightarrow> st1 k = Map.empty k))"
proof -
  have h1: "\<not> includes_str ''https://example.com'' ''.deno.dev''" by simp
  have h2: "key_size [''urls'', ''https://example.com''] \<le> 2048"
    by (simp add: key_size_urls)
  show ?thesis
    using h1 h2 shorten_idempotent [OF h1 h2, of "{''https://example.com''}" Map.empty Map.empty
        "''a1b2c3d4-e5f6-4789-8abc-def012345678''" "''0f8fad5b-d9cb-469f-a165-70867728950e''"]
    by blast
qed

subsection \<open>Long URLs that contain the service's own domain\<close>

text \<open>
  C4: for every long URL \<open>u\<close> that contains \<open>.deno.dev\<close>, \<open>POST /shorten\<close> with
  \<open>{"url": u}\<close> answers with status 400 and leaves the store as it was, whatever the
  store holds; the server passes that answer on.
\<close>

theorem domain_loop_rejected:
  assumes "includes_str u ''.deno.dev''"
  shows "handler parsable fs st g (shorten_request u) = (Inr domain_error, st)
       \<and> respond parsable fs st g (shorten_request u) = (domain_error, st)
       \<and> (\<exists>b hs. domain_error = Response b 400 hs)"
  using assms
  by (simp add: handler_shorten_request respond_def shorten_string_def domain_error_def)

theorem domain_loop_rejected_witness:
  "includes_str ''https://iec-link.deno.dev/a1b2c3'' ''.deno.dev''
   \<and> handler {''https://iec-link.deno.dev/a1b2c3''} Map.empty Map.empty
         ''a1b2c3d4-e5f6-4789-8abc-def012345678''
         (shorten_request ''https://iec-link.deno.dev/a1b2c3'')
       = (Inr domain_error, Map.empty)
   \<and> respond {''https://iec-link.deno.dev/a1b2c3''} Map.empty Map.empty
         ''a1b2c3d4-e5f6-4789-8abc-def012345678''
         (shorten_request ''https://iec-link.deno.dev/a1b2c3'')
       = (domain_error, Map.empty)"
proof -
  have h: "includes_str ''https://iec-link.deno.dev/a1b2c3'' ''.deno.dev''" by simp
  show ?thesis
    using h domain_loop_rejected [OF h, of "{''https://iec-link.deno.dev/a1b2c3''}"
        Map.empty Map.empty "''a1b2c3d4-e5f6-4789-8abc-def012345678''"]
    by blast
qed

subsection \<open>Allocation of a new short ID\<close>

text \<open>
  C5, the claim as stated fails. The store below is reachable (shorten the long URL
  \<open>a1b2c3\<close> with a UUID that starts with \<open>ffffff\<close>, then \<open>https://other.example\<close> with
  one that starts with \<open>a1b2c3\<close>): the key of the ID \<open>a1b2c3\<close> already holds a record with
  another long URL, and the ID is already given to \<open>https://other.example\<close>. Shortening
  \<open>https://example.com\<close> with a UUID that starts with \<open>a1b2c3\<close> still commits \<open>a1b2c3\<close>
  and answers 200: no check, no second candidate, no error.
\<close>

theorem allocation_commits_colliding_id:
  "kv_get
     [[''urls'', ''a1b2c3''] \<mapsto> \<lparr>shortId = ''ffffff'', url = ''a1b2c3''\<rparr>,
      [''urls'', ''https://other.example''] \<mapsto>
        \<lparr>shortId = ''a1b2c3'', url = ''https://other.example''\<rparr>]
     [''urls'', ''a1b2c3'']
     = Inr (Some \<lparr>shortId = ''ffffff'', url = ''a1b2c3''\<rparr>)
   \<and> handler {''https://other.example'', ''https://example.com''} Map.empty
     [[''urls'', ''a1b2c3''] \<mapsto> \<lparr>shortId = ''ffffff'', url = ''a1b2c3''\<rparr>,
      [''urls'', ''https://other.example''] \<mapsto>
        \<lparr>shortId = ''a1b2c3'', url = ''https://other.example''\<rparr>]
     ''a1b2c3d4-e5f6-4789-8abc-def012345678'' (shorten_request ''https://example.com'')
     = (Inr (shortId_response ''a1b2c3''),
        [[''urls'', ''a1b2c3''] \<mapsto> \<lparr>shortId = ''ffffff'', url = ''a1b2c3''\<rparr>,
         [''urls'', ''https://other.example''] \<mapsto>
           \<lparr>shortId = ''a1b2c3'', url = ''https://other.example''\<rparr>,
         [''urls'', ''https://example.com''] \<mapsto>
           \<lparr>shortId = ''a1b2c3'', url = ''https://example.com''\<rparr>])"
  by (simp add: handler_shorten_request shorten_string_def kv_get_def kv_set_def key_size_urls
      Let_def)

text \<open>
  C5 as amended: for every long URL \<open>u\<close> that passes the self-domain check, whose key
  fits the store (at most 2048 bytes) and which has no record, whatever else the store
  holds and whatever the UUID drawn, \<open>POST /shorten\<close> succeeds at the first and only
  attempt: it answers with the first six characters of that UUID as short ID and writes
  the one record of \<open>u\<close>. It looks at no record of the candidate ID, never draws a second
  candidate and never fails for want of a free ID.
\<close>

theorem allocation_single_unchecked:
  assumes "\<not> includes_str u ''.deno.dev''" and "key_size [''urls'', u] \<le> 2048"
      and "kv_get st [''urls'', u] = Inr None"
  shows "handler parsable fs st g (shorten_request u)
           = (Inr (shortId_response (take 6 g)),
              st([''urls'', u] \<mapsto> \<lparr>shortId = take 6 g, url = u\<rparr>))
       \<and> respond parsable fs st g (shorten_request u)
           = (shortId_response (take 6 g),
              st([''urls'', u] \<mapsto> \<lparr>shortId = take 6 g, url = u\<rparr>))"
proof -
  have "st [''urls'', u] = None"
    using assms(3) kv_get_Inr [of st "[''urls'', u]" None] by simp
  then show ?thesis
    using assms(1,2) by (simp add: handler_shorten_request respond_def shorten_string_new)
qed

theorem allocation_single_unchecked_witness:
  "\<not> includes_str ''https://example.com'' ''.deno.dev''
   \<and> key_size [''urls'', ''https://example.com''] \<le> 2048
   \<and> kv_get [[''urls'', ''a1b2c3''] \<mapsto> \<lparr>shortId = ''ffffff'', url = ''a1b2c3''\<rparr>]
        [''urls'', ''https://example.com''] = Inr None
   \<and> handler {''https://example.com''} Map.empty
        [[''urls'', ''a1b2c3''] \<mapsto> \<lparr>shortId = ''ffffff'', url = ''a1b2c3''\<rparr>]
        ''a1b2c3d4-e5f6-4789-8abc-def012345678'' (shorten_request ''https://example.com'')
       = (Inr (shortId_response ''a1b2c3''),
          [[''urls'', ''a1b2c3''] \<mapsto> \<lparr>shortId = ''ffffff'', url = ''a1b2c3''\<rparr>,
           [''urls'', ''https://example.com''] \<mapsto>
             \<lparr>shortId = ''a1b2c3'', url = ''https://example.com''\<rparr>])"
proof -
  have h1: "\<not> includes_str ''https://example.com'' ''.deno.dev''" by simp
  have h2: "key_size [''urls'', ''https://example.com''] \<le> 2048"
    by (simp add: key_size_urls)
  have h3: "kv_get [[''urls'', ''a1b2c3''] \<mapsto> \<lparr>shortId = ''ffffff'', url = ''a1b2c3''\<rparr>]
        [''urls'', ''https://example.com''] = Inr None"
    by (simp add: kv_get_def key_size_urls)
  show ?thesis
    using h1 h2 h3 allocation_single_unchecked [OF h1 h2 h3, of "{''https://example.com''}"
        Map.empty "''a1b2c3d4-e5f6-4789-8abc-def012345678''"]
    by simp
qed

subsection \<open>Resolving a string that is no short ID\<close>

text \<open>
  C6: after \<open>POST /shorten\<close> of \<open>https://example.com\<close> on the empty store, which gives the
  short ID \<open>a1b2c3\<close>, the string \<open>https://example.com\<close> has never been given as a short
  ID, and yet \<open>GET /https://example.com\<close> is answered with a redirect of status 302 to
  \<open>https://example.com\<close>, not with 404: the lookup finds the record stored under the long
  URL, an absolute URL that the platform parses. The short ID that was given, \<open>a1b2c3\<close>,
  is answered with 404.
\<close>

theorem unmapped_long_url_resolves:
  "handler {''https://example.com''} Map.empty Map.empty
       ''a1b2c3d4-e5f6-4789-8abc-def012345678'' (shorten_request ''https://example.com'')
     = (Inr (shortId_response ''a1b2c3''),
        [[''urls'', ''https://example.com''] \<mapsto>
           \<lparr>shortId = ''a1b2c3'', url = ''https://example.com''\<rparr>])
   \<and> fst (handler {''https://example.com''} Map.empty
       [[''urls'', ''https://example.com''] \<mapsto>
          \<lparr>shortId = ''a1b2c3'', url = ''https://example.com''\<rparr>]
       ''0f8fad5b-d9cb-469f-a165-70867728950e'' (resolve_request ''https://example.com''))
     = Inr (Redirect ''https://example.com'' 302)
   \<and> ''https://example.com'' \<noteq> ''a1b2c3''
   \<and> fst (handler {''https://example.com''} Map.empty
       [[''urls'', ''https://example.com''] \<mapsto>
          \<lparr>shortId = ''a1b2c3'', url = ''https://example.com''\<rparr>]
       ''0f8fad5b-d9cb-469f-a165-70867728950e'' (resolve_request ''a1b2c3''))
     = Inr (Response (Text ''URL not found'') 404 corsHeaders)"
  by (simp add: handler_shorten_request handler_resolve_request shorten_string_def resolve_def
      kv_get_def kv_set_def key_size_urls Let_def)

subsection \<open>Short IDs of distinct long URLs\<close>

text \<open>
  C7, the claim as stated fails: two distinct long URLs shortened one after the other,
  with two UUIDs that agree on their first six characters, get the same short ID
  \<open>a1b2c3\<close>, both with status 200.
\<close>

theorem equal_prefixes_equal_ids:
  "''https://example.com/a'' \<noteq> ''https://example.com/b''
   \<and> handler {''https://example.com/a'', ''https://example.com/b''} Map.empty Map.empty
       ''a1b2c3d4-e5f6-4789-8abc-def012345678'' (shorten_request ''https://example.com/a'')
     = (Inr (shortId_response ''a1b2c3''),
        [[''urls'', ''https://example.com/a''] \<mapsto>
           \<lparr>shortId = ''a1b2c3'', url = ''https://example.com/a''\<rparr>])
   \<and> handler {''https://example.com/a'', ''https://example.com/b''} Map.empty
       [[''urls'', ''https://example.com/a''] \<mapsto>
           \<lparr>shortId = ''a1b2c3'', url = ''https://example.com/a''\<rparr>]
       ''a1b2c300-9d1c-4e2f-b3a4-5c6d7e8f9a0b'' (shorten_request ''https://example.com/b'')
     = (Inr (shortId_response ''a1b2c3''),
        [[''urls'', ''https://example.com/a''] \<mapsto>
           \<lparr>shortId = ''a1b2c3'', url = ''https://example.com/a''\<rparr>,
         [''urls'', ''https://example.com/b''] \<mapsto>
           \<lparr>shortId = ''a1b2c3'', url = ''https://example.com/b''\<rparr>])"
  by (simp add: handler_shorten_request shorten_string_def kv_get_def kv_set_def key_size_urls
      Let_def)

text \<open>
  C7 as amended: for all distinct long URLs \<open>u1\<close> and \<open>u2\<close> that pass the self-domain
  check, whose keys fit the store (at most 2048 bytes each) and which have no record
  yet, shortened one after the other with UUIDs whose first six characters differ, the
  short IDs returned are those two prefixes, hence distinct.
\<close>

theorem distinct_prefixes_distinct_ids:
  assumes "u1 \<noteq> u2"
      and "\<not> includes_str u1 ''.deno.dev''" and "\<not> includes_str u2 ''.deno.dev''"
      and "key_size [''urls'', u1] \<le> 2048" and "key_size [''urls'', u2] \<le> 2048"
      and "kv_get st [''urls'', u1] = Inr None" and "kv_get st [''urls'', u2] = Inr None"
      and "take 6 g1 \<noteq> take 6 g2"
  shows "let (r1, st1) = handler parsable fs st g1 (shorten_request u1);
             (r2, st2) = handler parsable fs st1 g2 (shorten_request u2)
         in r1 = Inr (shortId_response (take 6 g1)) \<and> r2 = Inr (shortId_response (take 6 g2))
            \<and> r1 \<noteq> r2"
proof -
  let ?st1 = "st([''urls'', u1] \<mapsto> \<lparr>shortId = take 6 g1, url = u1\<rparr>)"
  have none1: "st [''urls'', u1] = None"
    using assms(6) kv_get_Inr [of st "[''urls'', u1]" None] by simp
  have none2: "st [''urls'', u2] = None"
    using assms(7) kv_get_Inr [of st "[''urls'', u2]" None] by simp
  have first: "handler parsable fs st g1 (shorten_request u1)
      = (Inr (shortId_response (take 6 g1)), ?st1)"
    using assms(2,4) none1 by (simp add: handler_shorten_request shorten_string_new)
  have "?st1 [''urls'', u2] = None"
    using assms(1) none2 by simp
  then have second: "handler parsable fs ?st1 g2 (shorten_request u2) =
      (Inr (shortId_response (take 6 g2)),
       ?st1([''urls'', u2] \<mapsto> \<lparr>shortId = take 6 g2, url = u2\<rparr>))"
    using assms(3,5) by (simp add: handler_shorten_request shorten_string_new)
  show ?thesis using assms(8) by (simp add: first second)
qed

theorem distinct_prefixes_distinct_ids_witness:
  "''https://example.com/a'' \<noteq> ''https://example.com/b''
   \<and> \<not> includes_str ''https://example.com/a'' ''.deno.dev''
   \<and> \<not> includes_str ''https://example.com/b'' ''.deno.dev''
   \<and> key_size [''urls'', ''https://example.com/a''] \<le> 2048
   \<and> key_size [''urls'', ''https://example.com/b''] \<le> 2048
   \<and> kv_get Map.empty [''urls'', ''https://example.com/a''] = Inr None
   \<and> kv_get Map.empty [''urls'', ''https://example.com/b''] = Inr None
   \<and> take 6 ''a1b2c3d4-e5f6-4789-8abc-def012345678'' \<noteq> take 6 ''0f8fad5b-d9cb-469f-a165-70867728950e''
   \<and> (let (r1, st1) = handler {''https://example.com/a'', ''https://example.com/b''}
                          Map.empty Map.empty ''a1b2c3d4-e5f6-4789-8abc-def012345678''
                          (shorten_request ''https://example.com/a'');
           (r2, st2) = handler {''https://example.com/a'', ''https://example.com/b''}
                          Map.empty st1 ''0f8fad5b-d9cb-469f-a165-70867728950e''
                          (shorten_request ''https://example.com/b'')
       in r1 = Inr (shortId_response ''a1b2c3'') \<and> r2 = Inr (shortId_response ''0f8fad'')
          \<and> r1 \<noteq> r2)"
proof -
  have h1: "''https://example.com/a'' \<noteq> ''https://example.com/b''" by simp
  have h2: "\<not> includes_str ''https://example.com/a'' ''.deno.dev''" by simp
  have h3: "\<not> includes_str ''https://example.com/b'' ''.deno.dev''" by simp
  have h4: "key_size [''urls'', ''https://example.com/a''] \<le> 2048"
    by (simp add: key_size_urls)
  have h5: "key_size [''urls'', ''https://example.com/b''] \<le> 2048"
    by (simp add: key_size_urls)
  have h6: "kv_get Map.empty [''urls'', ''https://example.com/a''] = Inr None"
    by (simp add: kv_get_def key_size_urls)
  have h7: "kv_get Map.empty [''urls'', ''https://example.com/b''] = Inr None"
    by (simp add: kv_get_def key_size_urls)
  have h8: "take 6 ''a1b2c3d4-e5f6-4789-8abc-def012345678''
              \<noteq> take 6 ''0f8fad5b-d9cb-469f-a165-70867728950e''" by simp
  have t6: "take 6 ''a1b2c3d4-e5f6-4789-8abc-def012345678'' = ''a1b2c3''"
           "take 6 ''0f8fad5b-d9cb-469f-a165-70867728950e'' = ''0f8fad''" by simp_all
  show ?thesis
    using h1 h2 h3 h4 h5 h6 h7 h8
      distinct_prefixes_distinct_ids [OF h1 h2 h3 h4 h5 h6 h7 h8,
        of "{''https://example.com/a'', ''https://example.com/b''}" Map.empty]
    unfolding t6 by blast
qed

subsection \<open>A body without the url field\<close>

text \<open>
  C8: \<open>POST /shorten\<close> with the body \<open>{}\<close> makes \<open>longUrl\<close> undefined, so the call of
  \<open>includes\<close> throws a TypeError out of the handler, and the server answers with its
  default for a handler that throws: status 500, \<open>Internal Server Error\<close>, not 400. The
  store is left as it was.
\<close>

theorem missing_url_is_500:
  "handler parsable fs st g
       \<lparr>http_method = ''POST'', pathname = ''/shorten'', json_body = Some (JObj [])\<rparr>
     = (Inl TypeError, st)
   \<and> respond parsable fs st g
       \<lparr>http_method = ''POST'', pathname = ''/shorten'', json_body = Some (JObj [])\<rparr>
     = (Response (Text ''Internal Server Error'') 500 [], st)"
  by (simp add: handler_def respond_def onError_def)

subsection \<open>Resolving leaves the store alone\<close>

text \<open>
  C9: for every string \<open>x\<close>, every store and every UUID, handling \<open>GET /x\<close> returns the store
  it was given, in the handler and in the server around it, also when the lookup or the
  redirect throws; so does every request whose method is \<open>GET\<close>, whatever its pathname.
\<close>

theorem resolve_no_side_effect:
  "snd (handler parsable fs st g (resolve_request x)) = st
   \<and> snd (respond parsable fs st g (resolve_request x)) = st
   \<and> snd (handler parsable fs st g (req\<lparr>http_method := ''GET''\<rparr>)) = st
   \<and> snd (respond parsable fs st g (req\<lparr>http_method := ''GET''\<rparr>)) = st"
proof -
  have h: "snd (handler parsable fs st g r) = st" if "http_method r = ''GET''" for r
    using that by (simp add: handler_def snd_resolve)
  have r: "snd (respond parsable fs st g r) = snd (handler parsable fs st g r)" for r
    by (simp add: respond_def split: prod.split sum.split)
  show ?thesis
    by (simp add: r h resolve_request_def)
qed

subsection \<open>The resolve branch and the file branches\<close>

text \<open>
  C10: every \<open>GET\<close> request whose pathname starts with \<open>/\<close> (as the pathname of every
  http URL does) is answered by the resolve branch, which looks up the pathname without
  its first character: it throws when the store refuses the key, answers 404 with
  \<open>URL not found\<close> when the store has nothing under it, and otherwise redirects to the
  stored URL or throws when that URL does not parse. So \<open>GET /\<close> looks up the empty short
  ID and answers 404 with \<open>URL not found\<close> when the store has nothing under it. The file
  branches for \<open>/\<close>, \<open>/styles.css\<close> and \<open>/script.js\<close> are never reached: for every request,
  the handler's result is the same whatever the files are, and its answer is never what
  a file branch would give.
\<close>

theorem resolve_branch_shadows_static:
  "(startsWith p ''/'' \<longrightarrow>
      handler parsable fs st g \<lparr>http_method = ''GET'', pathname = p, json_body = b\<rparr>
        = (case kv_get st [''urls'', drop 1 p] of
             Inl e \<Rightarrow> (Inl e, st)
           | Inr (Some v) \<Rightarrow>
               (if url v \<in> parsable then (Inr (Redirect (url v) 302), st)
                else (Inl TypeError, st))
           | Inr None \<Rightarrow> (Inr (Response (Text ''URL not found'') 404 corsHeaders), st)))
   \<and> (kv_get st [''urls'', ''''] = Inr None \<longrightarrow>
        handler parsable fs st g \<lparr>http_method = ''GET'', pathname = ''/'', json_body = b\<rparr>
          = (Inr (Response (Text ''URL not found'') 404 corsHeaders), st))
   \<and> handler parsable fs st g req = handler parsable fs' st g req
   \<and> fst (handler parsable fs st g req) \<noteq> static_file fs' path ctype"
proof -
  have a: "startsWith p ''/'' \<longrightarrow>
      handler parsable fs st g \<lparr>http_method = ''GET'', pathname = p, json_body = b\<rparr>
        = (case kv_get st [''urls'', drop 1 p] of
             Inl e \<Rightarrow> (Inl e, st)
           | Inr (Some v) \<Rightarrow>
               (if url v \<in> parsable then (Inr (Redirect (url v) 302), st)
                else (Inl TypeError, st))
           | Inr None \<Rightarrow> (Inr (Response (Text ''URL not found'') 404 corsHeaders), st))"
    by (simp add: handler_GET_slash resolve_def Let_def)
  have b: "kv_get st [''urls'', ''''] = Inr None \<longrightarrow>
        handler parsable fs st g \<lparr>http_method = ''GET'', pathname = ''/'', json_body = b\<rparr>
          = (Inr (Response (Text ''URL not found'') 404 corsHeaders), st)"
    by (simp add: handler_GET_slash resolve_def Let_def)
  show ?thesis
    using a b handler_no_files [of parsable fs st g req fs']
      handler_not_static [of parsable fs st g req fs' path ctype]
    by blast
qed

theorem resolve_branch_shadows_static_witness:
  "startsWith ''/styles.css'' ''/''
   \<and> kv_get Map.empty [''urls'', ''''] = Inr None
   \<and> handler {''https://example.com''} [''./index.html'' \<mapsto> ''<html></html>'', ''./styles.css'' \<mapsto> ''body {}'']
        Map.empty ''a1b2c3d4-e5f6-4789-8abc-def012345678''
        \<lparr>http_method = ''GET'', pathname = ''/styles.css'', json_body = None\<rparr>
       = (Inr (Response (Text ''URL not found'') 404 corsHeaders), Map.empty)
   \<and> handler {''https://example.com''} [''./index.html'' \<mapsto> ''<html></html>'', ''./styles.css'' \<mapsto> ''body {}'']
        Map.empty ''a1b2c3d4-e5f6-4789-8abc-def012345678''
        \<lparr>http_method = ''GET'', pathname = ''/'', json_body = None\<rparr>
       = (Inr (Response (Text ''URL not found'') 404 corsHeaders), Map.empty)"
proof -
  have h1: "startsWith ''/styles.css'' ''/''" by simp
  have h2: "kv_get Map.empty [''urls'', ''''] = Inr None"
    by (simp add: kv_get_def key_size_urls)
  have c: "kv_get Map.empty [''urls'', drop 1 ''/styles.css''] = Inr None"
    by (simp add: kv_get_def key_size_urls)
  show ?thesis
    using h1 h2 c
      resolve_branch_shadows_static [of "''/styles.css''" "{''https://example.com''}"
        "[''./index.html'' \<mapsto> ''<html></html>'', ''./styles.css'' \<mapsto> ''body {}'']"
        Map.empty "''a1b2c3d4-e5f6-4789-8abc-def012345678''" None]
    by simp
qed

end
